theory Spec2Isabelle
  imports Main
begin

section \<open>The presence-and-room relay of backend/app/main.py\<close>

subsection \<open>Python values and inbound payloads\<close>

text \<open>
  An event payload is whatever the client sent, decoded from JSON: null, a boolean, an
  integer, a string, a list or an object with string keys. Floating-point numbers and
  binary attachments are left out of the value universe. A Python string is a sequence
  of Unicode code points, and a decoded JSON string may hold any of them, lone
  surrogates included (the JSON text \<^verbatim>\<open>"\ud800"\<close> decodes to one). An object keeps its
  items in order; the handlers look its keys up by the literals of the source only, and
  a lookup takes the first item with the key.
\<close>

type_synonym codepoint = nat

datatype pyval =
    PNone
  | PBool bool
  | PInt int
  | PStr "codepoint list"
  | PList "pyval list"
  | PDict "(string \<times> pyval) list"

text \<open>A string written with 8-bit characters, as a Python string.\<close>

definition lit :: "string \<Rightarrow> codepoint list" where
  "lit s = map of_char s"

text \<open>Session identifiers are assigned by the Transport Layer, in 8-bit characters.\<close>

type_synonym sid = string

text \<open>Python's truth test, as used by \<^verbatim>\<open>if not x\<close> and \<^verbatim>\<open>all([...])\<close>.\<close>

fun truthy :: "pyval \<Rightarrow> bool" where
  "truthy PNone = False"
| "truthy (PBool b) = b"
| "truthy (PInt i) = (i \<noteq> 0)"
| "truthy (PStr s) = (s \<noteq> [])"
| "truthy (PList xs) = (xs \<noteq> [])"
| "truthy (PDict kvs) = (kvs \<noteq> [])"

text \<open>
  Exceptions that derive from Python's \<^verbatim>\<open>Exception\<close>: the \<^verbatim>\<open>AttributeError\<close> of calling
  \<^verbatim>\<open>.get\<close> on a payload that is not a dict, the \<^verbatim>\<open>UnicodeEncodeError\<close> of printing
  text that the output stream cannot encode, and any exception a Transport Layer call
  raises.
\<close>

datatype exn = AttributeError | UnicodeEncodeError | TransportError

text \<open>\<^verbatim>\<open>data.get(k, d)\<close>: only a dict has the method.\<close>

fun py_get :: "pyval \<Rightarrow> string \<Rightarrow> pyval \<Rightarrow> exn + pyval" where
  "py_get (PDict kvs) k d = Inr (case map_of kvs k of None \<Rightarrow> d | Some v \<Rightarrow> v)"
| "py_get _ k d = Inl AttributeError"

text \<open>
  The code points U+D800 to U+DFFF, which UTF-8 does not encode.
\<close>

definition surrogate :: "codepoint \<Rightarrow> bool" where
  "surrogate c \<longleftrightarrow> 55296 \<le> c \<and> c \<le> 57343"

text \<open>
  Whether a value placed in an f-string field can be printed. The output stream is taken
  to be UTF-8 with strict error handling, which encodes the fixed text of every message
  of the program. A string is formatted as itself, so it can be printed unless it holds
  a surrogate; every other value is formatted through \<^verbatim>\<open>repr\<close>, which escapes
  surrogates, and can always be printed.
\<close>

fun printable :: "pyval \<Rightarrow> bool" where
  "printable (PStr s) = list_all (\<lambda>c. \<not> surrogate c) s"
| "printable v = True"

subsection \<open>State: the presence registry and the Transport Layer\<close>

text \<open>
  One call of \<^verbatim>\<open>sio.emit(event, payload, room=..., skip_sid=...)\<close>. A missing
  \<^verbatim>\<open>room\<close> or \<^verbatim>\<open>skip_sid\<close> argument is \<open>None\<close>.
\<close>

record emission =
  event :: string
  payload :: pyval
  room :: "pyval option"
  skip_sid :: "sid option"

text \<open>
  The module-level dict \<^verbatim>\<open>online_users\<close>, the room membership held by the Transport
  Layer, and the log of the emissions the Transport Layer has accepted, oldest first.
\<close>

record world =
  online_users :: "sid \<rightharpoonup> pyval"
  rooms :: "pyval \<Rightarrow> sid set"
  emitted :: "emission list"

text \<open>
  What a handler leaves behind: the exception that propagates out of it, if any, and
  the state at that moment. The text written with \<^verbatim>\<open>print\<close> is not part of the state.
\<close>

type_synonym outcome = "exn option \<times> world"

text \<open>
  \<^verbatim>\<open>print(f"...")\<close> with the given values in the fields of the f-string, in order: it
  raises when one of them cannot be printed, and changes nothing either way.
\<close>

definition py_print :: "pyval list \<Rightarrow> world \<Rightarrow> outcome" where
  "py_print vs w = (if list_all printable vs then (None, w) else (Some UnicodeEncodeError, w))"

datatype tl_call = Emit emission | Enter_room sid pyval | Leave_room sid pyval

text \<open>Which calls of the Transport Layer raise, in the run under consideration.\<close>

type_synonym faults = "tl_call \<Rightarrow> bool"

text \<open>
  Modelled from the spec: the Transport Layer (the Socket.IO server object \<^verbatim>\<open>sio\<close>) is
  an external collaborator whose code is not part of the sources. Following its contract
  in the spec, \<^verbatim>\<open>emit\<close> hands one emission over for delivery, \<^verbatim>\<open>enter_room\<close> and
  \<^verbatim>\<open>leave_room\<close> add a session to a named room and remove it, and a call that raises
  changes nothing.
\<close>

definition sio_emit :: "faults \<Rightarrow> emission \<Rightarrow> world \<Rightarrow> outcome" where
  "sio_emit F e w =
     (if F (Emit e) then (Some TransportError, w)
      else (None, w\<lparr>emitted := emitted w @ [e]\<rparr>))"

definition sio_enter_room :: "faults \<Rightarrow> sid \<Rightarrow> pyval \<Rightarrow> world \<Rightarrow> outcome" where
  "sio_enter_room F s r w =
     (if F (Enter_room s r) then (Some TransportError, w)
      else (None, w\<lparr>rooms := (rooms w)(r := insert s (rooms w r))\<rparr>))"

definition sio_leave_room :: "faults \<Rightarrow> sid \<Rightarrow> pyval \<Rightarrow> world \<Rightarrow> outcome" where
  "sio_leave_room F s r w =
     (if F (Leave_room s r) then (Some TransportError, w)
      else (None, w\<lparr>rooms := (rooms w)(r := rooms w r - {s})\<rparr>))"

text \<open>
  Modelled from the spec: the Transport Layer broadcasts a payload to all members of a
  room, optionally excluding one session; an emission without a room goes to every
  session. \<open>receives w e s\<close> says that session \<open>s\<close> is a recipient of emission \<open>e\<close> handed
  over in state \<open>w\<close>.
\<close>

definition receives :: "world \<Rightarrow> emission \<Rightarrow> sid \<Rightarrow> bool" where
  "receives w e s \<longleftrightarrow>
     (case room e of None \<Rightarrow> True | Some r \<Rightarrow> s \<in> rooms w r) \<and> skip_sid e \<noteq> Some s"

text \<open>Statements in sequence: the second runs only if the first did not raise.\<close>

definition and_then :: "outcome \<Rightarrow> (world \<Rightarrow> outcome) \<Rightarrow> outcome" where
  "and_then r k = (case fst r of None \<Rightarrow> k (snd r) | Some e \<Rightarrow> r)"

text \<open>
  \<^verbatim>\<open>try: ... except Exception as e: print(f"Error in ...: {e}")\<close> around a handler
  body: the exception is swallowed, the state stays as the body left it. The message of
  an exception is printable (that of a \<^verbatim>\<open>UnicodeEncodeError\<close> shows the offending
  character escaped), so the \<^verbatim>\<open>print\<close> of the except branch does not raise.
\<close>

definition try_except :: "outcome \<Rightarrow> outcome" where
  "try_except r = (None, snd r)"

subsection \<open>The handlers\<close>

definition connect :: "faults \<Rightarrow> sid \<Rightarrow> world \<Rightarrow> outcome" where
  "connect F sid w =
     and_then (py_print [PStr (lit sid)] w)
       (sio_emit F
          \<lparr>event = ''connection_response'',
           payload = PDict [(''status'', PStr (lit ''connected'')), (''sid'', PStr (lit sid))],
           room = Some (PStr (lit sid)), skip_sid = None\<rparr>)"

definition disconnect :: "faults \<Rightarrow> sid \<Rightarrow> world \<Rightarrow> outcome" where
  "disconnect F sid w =
     and_then (py_print [PStr (lit sid)] w)
       (\<lambda>w. case online_users w sid of
               None \<Rightarrow> (None, w)
             | Some user_id \<Rightarrow>
                 sio_emit F
                   \<lparr>event = ''user_offline'', payload = PDict [(''user_id'', user_id)],
                    room = None, skip_sid = None\<rparr>
                   (w\<lparr>online_users := (online_users w)(sid := None)\<rparr>))"

definition user_online :: "faults \<Rightarrow> sid \<Rightarrow> pyval \<Rightarrow> world \<Rightarrow> outcome" where
  "user_online F sid data w = try_except
     (case py_get data ''user_id'' PNone of
        Inl e \<Rightarrow> (Some e, w)
      | Inr user_id \<Rightarrow>
          if \<not> truthy user_id then (None, w)
          else and_then
                 (py_print [user_id, PStr (lit sid)]
                    (w\<lparr>online_users := (online_users w)(sid \<mapsto> user_id)\<rparr>))
                 (sio_emit F
                    \<lparr>event = ''user_online'', payload = PDict [(''user_id'', user_id)],
                     room = None, skip_sid = None\<rparr>))"

definition join_conversation :: "faults \<Rightarrow> sid \<Rightarrow> pyval \<Rightarrow> world \<Rightarrow> outcome" where
  "join_conversation F sid data w = try_except
     (case py_get data ''conversation_id'' PNone of
        Inl e \<Rightarrow> (Some e, w)
      | Inr conversation_id \<Rightarrow>
     (case py_get data ''user_id'' PNone of
        Inl e \<Rightarrow> (Some e, w)
      | Inr user_id \<Rightarrow>
          if \<not> truthy conversation_id \<or> \<not> truthy user_id then (None, w)
          else and_then
                 (and_then (sio_enter_room F sid conversation_id w)
                    (py_print [user_id, conversation_id]))
                 (sio_emit F
                    \<lparr>event = ''joined_conversation'',
                     payload = PDict [(''conversation_id'', conversation_id),
                                      (''user_id'', user_id)],
                     room = Some conversation_id, skip_sid = None\<rparr>)))"

definition leave_conversation :: "faults \<Rightarrow> sid \<Rightarrow> pyval \<Rightarrow> world \<Rightarrow> outcome" where
  "leave_conversation F sid data w = try_except
     (case py_get data ''conversation_id'' PNone of
        Inl e \<Rightarrow> (Some e, w)
      | Inr conversation_id \<Rightarrow>
     (case py_get data ''user_id'' PNone of
        Inl e \<Rightarrow> (Some e, w)
      | Inr user_id \<Rightarrow>
          if \<not> truthy conversation_id then (None, w)
          else and_then (sio_leave_room F sid conversation_id w)
                 (py_print [user_id, conversation_id])))"

definition send_message :: "faults \<Rightarrow> sid \<Rightarrow> pyval \<Rightarrow> world \<Rightarrow> outcome" where
  "send_message F sid data w = try_except
     (case py_get data ''conversation_id'' PNone of
        Inl e \<Rightarrow> (Some e, w)
      | Inr conversation_id \<Rightarrow>
          if \<not> truthy conversation_id then (None, w)
          else and_then (py_print [conversation_id] w)
                 (sio_emit F
                    \<lparr>event = ''new_message'', payload = data,
                     room = Some conversation_id, skip_sid = None\<rparr>))"

definition typing :: "faults \<Rightarrow> sid \<Rightarrow> pyval \<Rightarrow> world \<Rightarrow> outcome" where
  "typing F sid data w = try_except
     (case py_get data ''conversation_id'' PNone of
        Inl e \<Rightarrow> (Some e, w)
      | Inr conversation_id \<Rightarrow>
     (case py_get data ''user_id'' PNone of
        Inl e \<Rightarrow> (Some e, w)
      | Inr user_id \<Rightarrow>
     (case py_get data ''is_typing'' (PBool True) of
        Inl e \<Rightarrow> (Some e, w)
      | Inr is_typing \<Rightarrow>
          if \<not> truthy conversation_id \<or> \<not> truthy user_id then (None, w)
          else and_then
                 (sio_emit F
                    \<lparr>event = ''user_typing'',
                     payload = PDict [(''conversation_id'', conversation_id),
                                      (''user_id'', user_id),
                                      (''is_typing'', is_typing)],
                     room = Some conversation_id, skip_sid = Some sid\<rparr> w)
                 (py_print [user_id, is_typing]))))"

definition message_read :: "faults \<Rightarrow> sid \<Rightarrow> pyval \<Rightarrow> world \<Rightarrow> outcome" where
  "message_read F sid data w = try_except
     (case py_get data ''conversation_id'' PNone of
        Inl e \<Rightarrow> (Some e, w)
      | Inr conversation_id \<Rightarrow>
     (case py_get data ''message_id'' PNone of
        Inl e \<Rightarrow> (Some e, w)
      | Inr message_id \<Rightarrow>
     (case py_get data ''user_id'' PNone of
        Inl e \<Rightarrow> (Some e, w)
      | Inr user_id \<Rightarrow>
          if \<not> list_all truthy [conversation_id, message_id, user_id] then (None, w)
          else and_then
                 (sio_emit F
                    \<lparr>event = ''message_read'',
                     payload = PDict [(''message_id'', message_id), (''user_id'', user_id)],
                     room = Some conversation_id, skip_sid = None\<rparr> w)
                 (py_print [message_id, user_id]))))"

definition voice_call_request :: "faults \<Rightarrow> sid \<Rightarrow> pyval \<Rightarrow> world \<Rightarrow> outcome" where
  "voice_call_request F sid data w = try_except
     (case py_get data ''conversation_id'' PNone of
        Inl e \<Rightarrow> (Some e, w)
      | Inr conversation_id \<Rightarrow>
     (case py_get data ''caller_id'' PNone of
        Inl e \<Rightarrow> (Some e, w)
      | Inr caller_id \<Rightarrow>
          if \<not> truthy conversation_id \<or> \<not> truthy caller_id then (None, w)
          else and_then
                 (sio_emit F
                    \<lparr>event = ''incoming_call'',
                     payload = PDict [(''conversation_id'', conversation_id),
                                      (''caller_id'', caller_id)],
                     room = Some conversation_id, skip_sid = Some sid\<rparr> w)
                 (py_print [caller_id])))"

subsection \<open>Concrete runs\<close>

text \<open>A Transport Layer on which no call raises, and one on which every emit raises.\<close>

definition reliable :: faults where
  "reliable = (\<lambda>c. False)"

definition emit_fails :: faults where
  "emit_fails = (\<lambda>c. case c of Emit e \<Rightarrow> True | _ \<Rightarrow> False)"


text \<open>Nobody online, every room empty, nothing emitted yet.\<close>

definition w_init :: world where
  "w_init = \<lparr>online_users = Map.empty, rooms = (\<lambda>r. {}), emitted = []\<rparr>"

text \<open>Session A has been marked online as user u1.\<close>

definition w_online :: world where
  "w_online =
     \<lparr>online_users = [''A'' \<mapsto> PStr (lit ''u1'')], rooms = (\<lambda>r. {}), emitted = []\<rparr>"

text \<open>
  Sessions A and B have joined room conv1 as users u1 and u2, on the reliable Transport
  Layer, starting from the initial state.
\<close>

definition w_conv1 :: world where
  "w_conv1 =
     snd (join_conversation reliable ''B''
            (PDict [(''conversation_id'', PStr (lit ''conv1'')),
                    (''user_id'', PStr (lit ''u2''))])
            (snd (join_conversation reliable ''A''
                    (PDict [(''conversation_id'', PStr (lit ''conv1'')),
                            (''user_id'', PStr (lit ''u1''))])
                    w_init)))"


section \<open>Properties\<close>

subsection \<open>Strings of 8-bit characters\<close>

lemma lit_eq_Nil [simp]: "lit s = [] \<longleftrightarrow> s = []"
  by (simp add: lit_def)

lemma lit_no_surrogate [simp]: "list_all (\<lambda>c. \<not> surrogate c) (lit s)"
proof -
  have "\<not> surrogate (of_char c)" for c :: char
  proof -
    have "of_char c < (256 :: nat)"
      by (rule nat_of_char_less_256)
    then show ?thesis
      unfolding surrogate_def by linarith
  qed
  then show ?thesis
    by (simp add: lit_def list_all_iff)
qed

subsection \<open>Disconnect\<close>

text \<open>
  C1. After the disconnect handler for a session has run, the presence registry has no
  entry for that session. If the session was mapped to a user and the emit goes through,
  the handler hands over exactly one emission, a \<^verbatim>\<open>user_offline\<close> without a room that
  carries that user id; if the session had no entry, nothing is emitted.
\<close>

theorem disconnect_reclaims_presence:
  "online_users (snd (disconnect F s w)) s = None \<and>
   (\<forall>u. online_users w s = Some u \<and>
        \<not> F (Emit \<lparr>event = ''user_offline'', payload = PDict [(''user_id'', u)],
                    room = None, skip_sid = None\<rparr>) \<longrightarrow>
        emitted (snd (disconnect F s w)) =
          emitted w @ [\<lparr>event = ''user_offline'', payload = PDict [(''user_id'', u)],
                        room = None, skip_sid = None\<rparr>]) \<and>
   (online_users w s = None \<longrightarrow> emitted (snd (disconnect F s w)) = emitted w)"
  by (cases "online_users w s")
     (simp_all add: disconnect_def sio_emit_def and_then_def py_print_def)

theorem disconnect_reclaims_presence_witness:
  "online_users w_online ''A'' = Some (PStr (lit ''u1'')) \<and>
   \<not> reliable (Emit \<lparr>event = ''user_offline'', payload = PDict [(''user_id'', PStr (lit ''u1''))],
                      room = None, skip_sid = None\<rparr>) \<and>
   online_users (snd (disconnect reliable ''A'' w_online)) ''A'' = None \<and>
   emitted (snd (disconnect reliable ''A'' w_online)) =
     [\<lparr>event = ''user_offline'', payload = PDict [(''user_id'', PStr (lit ''u1''))],
       room = None, skip_sid = None\<rparr>] \<and>
   online_users w_init ''A'' = None \<and>
   emitted (snd (disconnect reliable ''A'' w_init)) = []"
  using disconnect_reclaims_presence [of reliable "''A''" w_online]
        disconnect_reclaims_presence [of reliable "''A''" w_init]
  by (simp add: w_online_def w_init_def reliable_def)

subsection \<open>Incomplete payloads\<close>

text \<open>
  A required field counts as unusable when the payload is not a dict, when the key is
  missing (the lookup yields \<^verbatim>\<open>None\<close>), or when the value fails Python's truth test,
  as the empty string does. Each handler then returns normally and leaves the state,
  including the log of emissions, as it was.
\<close>

lemma user_online_drop:
  assumes "\<forall>v. py_get data ''user_id'' PNone = Inr v \<longrightarrow> \<not> truthy v"
  shows "user_online F s data w = (None, w)"
  using assms by (auto simp: user_online_def try_except_def and_then_def py_print_def split: sum.splits)

lemma send_message_drop:
  assumes "\<forall>v. py_get data ''conversation_id'' PNone = Inr v \<longrightarrow> \<not> truthy v"
  shows "send_message F s data w = (None, w)"
  using assms by (auto simp: send_message_def try_except_def and_then_def py_print_def split: sum.splits)

lemma leave_conversation_drop:
  assumes "\<forall>v. py_get data ''conversation_id'' PNone = Inr v \<longrightarrow> \<not> truthy v"
  shows "leave_conversation F s data w = (None, w)"
  using assms by (auto simp: leave_conversation_def try_except_def and_then_def py_print_def split: sum.splits)

lemma join_conversation_drop:
  assumes "(\<forall>v. py_get data ''conversation_id'' PNone = Inr v \<longrightarrow> \<not> truthy v) \<or>
           (\<forall>v. py_get data ''user_id'' PNone = Inr v \<longrightarrow> \<not> truthy v)"
  shows "join_conversation F s data w = (None, w)"
  using assms by (auto simp: join_conversation_def try_except_def and_then_def py_print_def split: sum.splits)

lemma typing_drop:
  assumes "(\<forall>v. py_get data ''conversation_id'' PNone = Inr v \<longrightarrow> \<not> truthy v) \<or>
           (\<forall>v. py_get data ''user_id'' PNone = Inr v \<longrightarrow> \<not> truthy v)"
  shows "typing F s data w = (None, w)"
  using assms by (auto simp: typing_def try_except_def and_then_def py_print_def split: sum.splits)

lemma message_read_drop:
  assumes "(\<forall>v. py_get data ''conversation_id'' PNone = Inr v \<longrightarrow> \<not> truthy v) \<or>
           (\<forall>v. py_get data ''message_id'' PNone = Inr v \<longrightarrow> \<not> truthy v) \<or>
           (\<forall>v. py_get data ''user_id'' PNone = Inr v \<longrightarrow> \<not> truthy v)"
  shows "message_read F s data w = (None, w)"
  using assms by (auto simp: message_read_def try_except_def and_then_def py_print_def split: sum.splits)

lemma voice_call_request_drop:
  assumes "(\<forall>v. py_get data ''conversation_id'' PNone = Inr v \<longrightarrow> \<not> truthy v) \<or>
           (\<forall>v. py_get data ''caller_id'' PNone = Inr v \<longrightarrow> \<not> truthy v)"
  shows "voice_call_request F s data w = (None, w)"
  using assms by (auto simp: voice_call_request_def try_except_def and_then_def py_print_def split: sum.splits)

text \<open>
  C2. For each of the seven payload handlers and each payload in which one of the
  handler's required fields \<open>k\<close> is missing or empty, the handler emits nothing, changes
  nothing and raises nothing: the sender gets no sign of the rejection.
\<close>

theorem incomplete_payload_is_dropped:
  assumes "\<forall>v. py_get data k PNone = Inr v \<longrightarrow> \<not> truthy v"
  shows "(k = ''user_id'' \<longrightarrow> user_online F s data w = (None, w)) \<and>
         (k = ''conversation_id'' \<or> k = ''user_id'' \<longrightarrow>
            join_conversation F s data w = (None, w)) \<and>
         (k = ''conversation_id'' \<longrightarrow> leave_conversation F s data w = (None, w)) \<and>
         (k = ''conversation_id'' \<longrightarrow> send_message F s data w = (None, w)) \<and>
         (k = ''conversation_id'' \<or> k = ''user_id'' \<longrightarrow> typing F s data w = (None, w)) \<and>
         (k = ''conversation_id'' \<or> k = ''message_id'' \<or> k = ''user_id'' \<longrightarrow>
            message_read F s data w = (None, w)) \<and>
         (k = ''conversation_id'' \<or> k = ''caller_id'' \<longrightarrow>
            voice_call_request F s data w = (None, w))"
proof (intro conjI impI)
  assume "k = ''user_id''"
  with assms show "user_online F s data w = (None, w)"
    by (simp add: user_online_drop)
next
  assume "k = ''conversation_id'' \<or> k = ''user_id''"
  with assms show "join_conversation F s data w = (None, w)"
    by (intro join_conversation_drop) blast
next
  assume "k = ''conversation_id''"
  with assms show "leave_conversation F s data w = (None, w)"
    by (simp add: leave_conversation_drop)
next
  assume "k = ''conversation_id''"
  with assms show "send_message F s data w = (None, w)"
    by (simp add: send_message_drop)
next
  assume "k = ''conversation_id'' \<or> k = ''user_id''"
  with assms show "typing F s data w = (None, w)"
    by (intro typing_drop) blast
next
  assume "k = ''conversation_id'' \<or> k = ''message_id'' \<or> k = ''user_id''"
  with assms show "message_read F s data w = (None, w)"
    by (intro message_read_drop) blast
next
  assume "k = ''conversation_id'' \<or> k = ''caller_id''"
  with assms show "voice_call_request F s data w = (None, w)"
    by (intro voice_call_request_drop) blast
qed

theorem incomplete_payload_is_dropped_witness:
  "py_get (PDict [(''text'', PStr (lit ''hi''))]) ''conversation_id'' PNone = Inr PNone \<and>
   \<not> truthy PNone \<and>
   send_message reliable ''A'' (PDict [(''text'', PStr (lit ''hi''))]) w_conv1 = (None, w_conv1) \<and>
   py_get (PDict [(''conversation_id'', PStr (lit ''conv1'')), (''user_id'', PStr (lit ''''))])
     ''user_id'' PNone = Inr (PStr (lit '''')) \<and>
   \<not> truthy (PStr (lit '''')) \<and>
   join_conversation reliable ''A''
     (PDict [(''conversation_id'', PStr (lit ''conv1'')), (''user_id'', PStr (lit ''''))]) w_init
     = (None, w_init) \<and>
   py_get (PInt 5) ''conversation_id'' PNone = Inl AttributeError \<and>
   typing reliable ''A'' (PInt 5) w_conv1 = (None, w_conv1)"
  using incomplete_payload_is_dropped
          [of "PDict [(''text'', PStr (lit ''hi''))]" "''conversation_id''" reliable "''A''" w_conv1]
        incomplete_payload_is_dropped
          [of "PDict [(''conversation_id'', PStr (lit ''conv1'')), (''user_id'', PStr (lit ''''))]"
              "''user_id''" reliable "''A''" w_init]
        incomplete_payload_is_dropped
          [of "PInt 5" "''conversation_id''" reliable "''A''" w_conv1]
  by simp

subsection \<open>Presence\<close>




subsection \<open>Room membership\<close>


lemma rooms_w_conv1: "rooms w_conv1 (PStr (lit ''conv1'')) = {''A'', ''B''}"
  by (auto simp: w_conv1_def w_init_def reliable_def join_conversation_def try_except_def and_then_def py_print_def sio_enter_room_def sio_emit_def)




text \<open>
  C7. A \<^verbatim>\<open>leave_conversation\<close> event whose conversation id is non-empty removes the
  session from the room named by it, when the Transport Layer call goes through, and the
  user id plays no part: nothing is assumed about it. The handler never emits anything
  and never touches the presence registry, whatever the payload.
\<close>

theorem leave_conversation_is_silent:
  "(\<forall>c. map_of kvs ''conversation_id'' = Some c \<and> truthy c \<and> \<not> F (Leave_room s c) \<longrightarrow>
      leave_conversation F s (PDict kvs) w =
        (None, w\<lparr>rooms := (rooms w)(c := rooms w c - {s})\<rparr>)) \<and>
   emitted (snd (leave_conversation F s data w)) = emitted w \<and>
   online_users (snd (leave_conversation F s data w)) = online_users w"
  by (simp add: leave_conversation_def try_except_def and_then_def py_print_def sio_leave_room_def split: sum.splits)

theorem leave_conversation_is_silent_witness:
  "map_of [(''conversation_id'', PStr (lit ''conv1''))] ''conversation_id'' = Some (PStr (lit ''conv1'')) \<and>
   map_of [(''conversation_id'', PStr (lit ''conv1''))] ''user_id'' = None \<and>
   truthy (PStr (lit ''conv1'')) \<and>
   \<not> reliable (Leave_room ''A'' (PStr (lit ''conv1''))) \<and>
   leave_conversation reliable ''A'' (PDict [(''conversation_id'', PStr (lit ''conv1''))]) w_conv1 =
     (None, w_conv1\<lparr>rooms := (rooms w_conv1)(PStr (lit ''conv1'') := {''B''})\<rparr>) \<and>
   leave_conversation reliable ''A''
     (PDict [(''conversation_id'', PStr (lit ''conv1'')), (''user_id'', PStr (lit ''''))]) w_conv1 =
     (None, w_conv1\<lparr>rooms := (rooms w_conv1)(PStr (lit ''conv1'') := {''B''})\<rparr>)"
  using leave_conversation_is_silent
          [of "[(''conversation_id'', PStr (lit ''conv1''))]" reliable "''A''" w_conv1]
        leave_conversation_is_silent
          [of "[(''conversation_id'', PStr (lit ''conv1'')), (''user_id'', PStr (lit ''''))]"
              reliable "''A''" w_conv1]
  by (simp add: reliable_def rooms_w_conv1 insert_Diff_if)

subsection \<open>Fan-out\<close>




text \<open>
  C3. A \<^verbatim>\<open>typing\<close> event whose conversation id and user id are both non-empty hands
  over, when the emit goes through, one emission for the room named by the conversation
  id that excludes the originating session. Its payload has exactly the three items
  conversation id, user id and typing flag, the flag being the inbound value when the key
  is present and true when it is absent. In no state is the originating session a
  recipient; the recipients are the other members of the room.
\<close>

theorem typing_excludes_sender:
  assumes "map_of kvs ''conversation_id'' = Some c" and "truthy c"
      and "map_of kvs ''user_id'' = Some u" and "truthy u"
      and "e = \<lparr>event = ''user_typing'',
                payload = PDict [(''conversation_id'', c), (''user_id'', u),
                                 (''is_typing'', case map_of kvs ''is_typing'' of
                                                   None \<Rightarrow> PBool True | Some t \<Rightarrow> t)],
                room = Some c, skip_sid = Some s\<rparr>"
      and "\<not> F (Emit e)"
  shows "typing F s (PDict kvs) w = (None, w\<lparr>emitted := emitted w @ [e]\<rparr>) \<and>
         \<not> receives w' e s \<and>
         (\<forall>s'. receives w e s' \<longleftrightarrow> s' \<in> rooms w c \<and> s' \<noteq> s)"
  using assms by (auto simp: typing_def try_except_def and_then_def py_print_def sio_emit_def receives_def)

theorem typing_excludes_sender_witness:
  "map_of [(''conversation_id'', PStr (lit ''conv1'')), (''user_id'', PStr (lit ''u1''))]
     ''conversation_id'' = Some (PStr (lit ''conv1'')) \<and>
   map_of [(''conversation_id'', PStr (lit ''conv1'')), (''user_id'', PStr (lit ''u1''))]
     ''user_id'' = Some (PStr (lit ''u1'')) \<and>
   map_of [(''conversation_id'', PStr (lit ''conv1'')), (''user_id'', PStr (lit ''u1''))]
     ''is_typing'' = None \<and>
   truthy (PStr (lit ''conv1'')) \<and> truthy (PStr (lit ''u1'')) \<and>
   typing reliable ''A''
     (PDict [(''conversation_id'', PStr (lit ''conv1'')), (''user_id'', PStr (lit ''u1''))]) w_conv1 =
     (None, w_conv1\<lparr>emitted := emitted w_conv1 @
        [\<lparr>event = ''user_typing'',
          payload = PDict [(''conversation_id'', PStr (lit ''conv1'')), (''user_id'', PStr (lit ''u1'')),
                           (''is_typing'', PBool True)],
          room = Some (PStr (lit ''conv1'')), skip_sid = Some ''A''\<rparr>]\<rparr>) \<and>
   \<not> receives w_conv1
        \<lparr>event = ''user_typing'',
         payload = PDict [(''conversation_id'', PStr (lit ''conv1'')), (''user_id'', PStr (lit ''u1'')),
                          (''is_typing'', PBool True)],
         room = Some (PStr (lit ''conv1'')), skip_sid = Some ''A''\<rparr> ''A'' \<and>
   receives w_conv1
        \<lparr>event = ''user_typing'',
         payload = PDict [(''conversation_id'', PStr (lit ''conv1'')), (''user_id'', PStr (lit ''u1'')),
                          (''is_typing'', PBool True)],
         room = Some (PStr (lit ''conv1'')), skip_sid = Some ''A''\<rparr> ''B'' \<and>
   typing reliable ''A''
     (PDict [(''conversation_id'', PStr (lit ''conv1'')), (''user_id'', PStr (lit ''u1'')),
             (''is_typing'', PBool False)]) w_init =
     (None, w_init\<lparr>emitted := emitted w_init @
        [\<lparr>event = ''user_typing'',
          payload = PDict [(''conversation_id'', PStr (lit ''conv1'')), (''user_id'', PStr (lit ''u1'')),
                           (''is_typing'', PBool False)],
          room = Some (PStr (lit ''conv1'')), skip_sid = Some ''A''\<rparr>]\<rparr>)"
  using typing_excludes_sender
          [of "[(''conversation_id'', PStr (lit ''conv1'')), (''user_id'', PStr (lit ''u1''))]"
              "PStr (lit ''conv1'')" "PStr (lit ''u1'')" _ "''A''" reliable w_conv1 w_conv1]
        typing_excludes_sender
          [of "[(''conversation_id'', PStr (lit ''conv1'')), (''user_id'', PStr (lit ''u1'')),
                (''is_typing'', PBool False)]"
              "PStr (lit ''conv1'')" "PStr (lit ''u1'')" _ "''A''" reliable w_init w_init]
  by (simp add: reliable_def rooms_w_conv1)

text \<open>
  C10. The \<^verbatim>\<open>message_read\<close> handler applies Python's truth test to the conversation
  id, the message id and the user id. If any of the three fails it, the event is dropped
  without exception, emission or state change; this covers values that are present but
  falsy, such as a message id of 0 or False. If all three pass and the emit goes through,
  the handler hands over one emission for the room named by the conversation id whose
  payload has exactly the message id and the user id, and which excludes nobody: the
  recipients are all members of the room.
\<close>

theorem message_read_truth_test:
  assumes "py_get data ''conversation_id'' PNone = Inr c"
      and "py_get data ''message_id'' PNone = Inr m"
      and "py_get data ''user_id'' PNone = Inr u"
      and "e = \<lparr>event = ''message_read'',
                payload = PDict [(''message_id'', m), (''user_id'', u)],
                room = Some c, skip_sid = None\<rparr>"
  shows "(\<not> truthy c \<or> \<not> truthy m \<or> \<not> truthy u \<longrightarrow>
            message_read F s data w = (None, w)) \<and>
         (truthy c \<and> truthy m \<and> truthy u \<and> \<not> F (Emit e) \<longrightarrow>
            message_read F s data w = (None, w\<lparr>emitted := emitted w @ [e]\<rparr>) \<and>
            (\<forall>s'. receives w e s' \<longleftrightarrow> s' \<in> rooms w c))"
  using assms by (auto simp: message_read_def try_except_def and_then_def py_print_def sio_emit_def receives_def)

theorem message_read_truth_test_witness:
  "py_get (PDict [(''conversation_id'', PStr (lit ''conv1'')), (''message_id'', PInt 0),
                  (''user_id'', PStr (lit ''u1''))]) ''message_id'' PNone = Inr (PInt 0) \<and>
   \<not> truthy (PInt 0) \<and>
   message_read reliable ''A''
     (PDict [(''conversation_id'', PStr (lit ''conv1'')), (''message_id'', PInt 0),
             (''user_id'', PStr (lit ''u1''))]) w_conv1 = (None, w_conv1) \<and>
   \<not> truthy (PBool False) \<and>
   message_read reliable ''A''
     (PDict [(''conversation_id'', PStr (lit ''conv1'')), (''message_id'', PBool False),
             (''user_id'', PStr (lit ''u1''))]) w_conv1 = (None, w_conv1) \<and>
   truthy (PStr (lit ''conv1'')) \<and> truthy (PInt 7) \<and> truthy (PStr (lit ''u1'')) \<and>
   message_read reliable ''A''
     (PDict [(''conversation_id'', PStr (lit ''conv1'')), (''message_id'', PInt 7),
             (''user_id'', PStr (lit ''u1''))]) w_conv1 =
     (None, w_conv1\<lparr>emitted := emitted w_conv1 @
        [\<lparr>event = ''message_read'',
          payload = PDict [(''message_id'', PInt 7), (''user_id'', PStr (lit ''u1''))],
          room = Some (PStr (lit ''conv1'')), skip_sid = None\<rparr>]\<rparr>) \<and>
   receives w_conv1
     \<lparr>event = ''message_read'',
      payload = PDict [(''message_id'', PInt 7), (''user_id'', PStr (lit ''u1''))],
      room = Some (PStr (lit ''conv1'')), skip_sid = None\<rparr> ''A''"
  using message_read_truth_test
          [of "PDict [(''conversation_id'', PStr (lit ''conv1'')), (''message_id'', PInt 0),
                      (''user_id'', PStr (lit ''u1''))]" "PStr (lit ''conv1'')" "PInt 0" "PStr (lit ''u1'')"
              _ reliable "''A''" w_conv1]
        message_read_truth_test
          [of "PDict [(''conversation_id'', PStr (lit ''conv1'')), (''message_id'', PBool False),
                      (''user_id'', PStr (lit ''u1''))]" "PStr (lit ''conv1'')" "PBool False" "PStr (lit ''u1'')"
              _ reliable "''A''" w_conv1]
        message_read_truth_test
          [of "PDict [(''conversation_id'', PStr (lit ''conv1'')), (''message_id'', PInt 7),
                      (''user_id'', PStr (lit ''u1''))]" "PStr (lit ''conv1'')" "PInt 7" "PStr (lit ''u1'')"
              _ reliable "''A''" w_conv1]
  by (simp add: reliable_def rooms_w_conv1)

subsection \<open>Outbound event names\<close>

text \<open>
  On the reliable Transport Layer and from the initial state, a complete
  \<^verbatim>\<open>send_message\<close>, \<^verbatim>\<open>typing\<close> or \<^verbatim>\<open>voice_call_request\<close> event produces one emission
  each, and its event name is not the name of the inbound event.
\<close>

theorem outbound_names_counterexample:
  "map event (emitted (snd (send_message reliable ''A''
       (PDict [(''conversation_id'', PStr (lit ''conv1'')), (''text'', PStr (lit ''hi''))]) w_init)))
     = [''new_message''] \<and>
   ''new_message'' \<noteq> ''send_message'' \<and>
   map event (emitted (snd (typing reliable ''A''
       (PDict [(''conversation_id'', PStr (lit ''conv1'')), (''user_id'', PStr (lit ''u1''))]) w_init)))
     = [''user_typing''] \<and>
   ''user_typing'' \<noteq> ''typing'' \<and>
   map event (emitted (snd (voice_call_request reliable ''A''
       (PDict [(''conversation_id'', PStr (lit ''conv1'')), (''caller_id'', PStr (lit ''u1''))]) w_init)))
     = [''incoming_call''] \<and>
   ''incoming_call'' \<noteq> ''voice_call_request''"
  by (simp add: send_message_def typing_def voice_call_request_def try_except_def and_then_def py_print_def
        sio_emit_def reliable_def w_init_def)

text \<open>
  C8, as amended. On the reliable Transport Layer, a payload with a non-empty
  conversation id is re-broadcast by \<^verbatim>\<open>send_message\<close> under the name
  \<^verbatim>\<open>new_message\<close>, if it is re-broadcast at all (it is when the conversation id can be
  printed); by \<^verbatim>\<open>typing\<close>, given a non-empty user id, under \<^verbatim>\<open>user_typing\<close>;
  by \<^verbatim>\<open>message_read\<close>, given a non-empty user id and message id, under
  \<^verbatim>\<open>message_read\<close>; and by \<^verbatim>\<open>voice_call_request\<close>, given a non-empty caller id, under
  \<^verbatim>\<open>incoming_call\<close>. Only \<^verbatim>\<open>message_read\<close> keeps the name of the inbound event.
\<close>

theorem outbound_names:
  assumes "map_of kvs ''conversation_id'' = Some c" and "truthy c"
  shows "map event (emitted (snd (send_message reliable s (PDict kvs) w))) =
           map event (emitted w) @ (if printable c then [''new_message''] else []) \<and>
         (\<forall>u. map_of kvs ''user_id'' = Some u \<and> truthy u \<longrightarrow>
            map event (emitted (snd (typing reliable s (PDict kvs) w))) =
              map event (emitted w) @ [''user_typing'']) \<and>
         (\<forall>u m. map_of kvs ''user_id'' = Some u \<and> truthy u \<and>
                map_of kvs ''message_id'' = Some m \<and> truthy m \<longrightarrow>
            map event (emitted (snd (message_read reliable s (PDict kvs) w))) =
              map event (emitted w) @ [''message_read'']) \<and>
         (\<forall>u. map_of kvs ''caller_id'' = Some u \<and> truthy u \<longrightarrow>
            map event (emitted (snd (voice_call_request reliable s (PDict kvs) w))) =
              map event (emitted w) @ [''incoming_call''])"
  using assms
  by (simp add: send_message_def typing_def message_read_def voice_call_request_def
        try_except_def and_then_def py_print_def sio_emit_def reliable_def)

theorem outbound_names_witness:
  "map_of [(''conversation_id'', PStr (lit ''conv1'')), (''user_id'', PStr (lit ''u1'')),
           (''message_id'', PInt 7), (''caller_id'', PStr (lit ''u1''))] ''conversation_id''
     = Some (PStr (lit ''conv1'')) \<and>
   truthy (PStr (lit ''conv1'')) \<and> truthy (PStr (lit ''u1'')) \<and> truthy (PInt 7) \<and>
   map event (emitted (snd (send_message reliable ''A''
     (PDict [(''conversation_id'', PStr (lit ''conv1'')), (''user_id'', PStr (lit ''u1'')),
             (''message_id'', PInt 7), (''caller_id'', PStr (lit ''u1''))]) w_init)))
     = [''new_message''] \<and>
   map event (emitted (snd (typing reliable ''A''
     (PDict [(''conversation_id'', PStr (lit ''conv1'')), (''user_id'', PStr (lit ''u1'')),
             (''message_id'', PInt 7), (''caller_id'', PStr (lit ''u1''))]) w_init)))
     = [''user_typing''] \<and>
   map event (emitted (snd (message_read reliable ''A''
     (PDict [(''conversation_id'', PStr (lit ''conv1'')), (''user_id'', PStr (lit ''u1'')),
             (''message_id'', PInt 7), (''caller_id'', PStr (lit ''u1''))]) w_init)))
     = [''message_read''] \<and>
   map event (emitted (snd (voice_call_request reliable ''A''
     (PDict [(''conversation_id'', PStr (lit ''conv1'')), (''user_id'', PStr (lit ''u1'')),
             (''message_id'', PInt 7), (''caller_id'', PStr (lit ''u1''))]) w_init)))
     = [''incoming_call'']"
  using outbound_names
          [of "[(''conversation_id'', PStr (lit ''conv1'')), (''user_id'', PStr (lit ''u1'')),
                (''message_id'', PInt 7), (''caller_id'', PStr (lit ''u1''))]"
              "PStr (lit ''conv1'')" "''A''" w_init]
  by (simp add: w_init_def)

subsection \<open>Exceptions at the handler boundary\<close>

text \<open>
  The seven payload handlers wrap their body in \<^verbatim>\<open>try ... except Exception\<close>: whatever
  the payload and whichever Transport Layer calls raise, nothing propagates.
\<close>

lemma payload_handlers_swallow:
  "fst (user_online F s data w) = None \<and>
   fst (join_conversation F s data w) = None \<and>
   fst (leave_conversation F s data w) = None \<and>
   fst (send_message F s data w) = None \<and>
   fst (typing F s data w) = None \<and>
   fst (message_read F s data w) = None \<and>
   fst (voice_call_request F s data w) = None"
  by (simp add: user_online_def join_conversation_def leave_conversation_def
        send_message_def typing_def message_read_def voice_call_request_def try_except_def and_then_def py_print_def)

text \<open>
  C9. Every handler is to catch, at its own boundary, the exceptions raised while it
  runs. The \<^verbatim>\<open>connect\<close> and \<^verbatim>\<open>disconnect\<close> handlers have no \<^verbatim>\<open>try\<close>: on a
  Transport Layer whose emit raises, the exception leaves each of them, whereas
  \<^verbatim>\<open>user_online\<close> on the same Transport Layer returns normally.
\<close>

theorem lifecycle_handlers_propagate:
  "fst (connect emit_fails ''A'' w_init) = Some TransportError \<and>
   fst (disconnect emit_fails ''A'' w_online) = Some TransportError \<and>
   fst (user_online emit_fails ''A'' (PDict [(''user_id'', PStr (lit ''u1''))]) w_init) = None"
  by (simp add: connect_def disconnect_def user_online_def try_except_def and_then_def py_print_def sio_emit_def
        emit_fails_def w_init_def w_online_def)

end
